theory Spec2Isabelle
  imports Main
begin

section \<open>JavaScript values and their conversion to text\<close>

text \<open>
  \<^verbatim>\<open>generateCustomHardwareImpl\<close> turns a hardware description, a parsed JSON document,
  into the text of a C++ struct. The sources hold several revisions of the file; the model
  follows the latest one, with its ten generators and four phases.

  The generators read the leaves of the document and paste them into template literals.
  A leaf is modelled by \<open>jsval\<close>; a field that the document does not have reads as
  \<open>JUndefined\<close>. Numbers are the integers a JSON pin number or an array index can be
  (below \<open>2^53\<close> in magnitude, where JavaScript holds every integer exactly and prints
  its plain decimal digits); fractions are not modelled. Lists and nested objects that may be missing are options. The document
  is a tree: no entry object occurs twice in it.
\<close>

datatype jsval = JUndefined | JNull | JBool bool | JNum int | JStr string

datatype error = TypeError

definition digit_of :: "nat \<Rightarrow> char" where
  "digit_of d = ''0123456789'' ! d"

fun nat_to_string :: "nat \<Rightarrow> string" where
  "nat_to_string n =
     (if n < 10 then [digit_of n] else nat_to_string (n div 10) @ [digit_of (n mod 10)])"

declare nat_to_string.simps [simp del]

definition int_to_string :: "int \<Rightarrow> string" where
  "int_to_string i = (if i < 0 then ''-'' @ nat_to_string (nat (- i)) else nat_to_string (nat i))"

definition bool_to_string :: "bool \<Rightarrow> string" where
  "bool_to_string b = (if b then ''true'' else ''false'')"

text \<open>\<open>to_string v\<close> is what a template literal substitutes for \<^verbatim>\<open>${v}\<close>.\<close>

fun to_string :: "jsval \<Rightarrow> string" where
  "to_string JUndefined = ''undefined''"
| "to_string JNull = ''null''"
| "to_string (JBool b) = bool_to_string b"
| "to_string (JNum i) = int_to_string i"
| "to_string (JStr s) = s"

text \<open>\<open>truthy v\<close> is \<^verbatim>\<open>!!v\<close>.\<close>

fun truthy :: "jsval \<Rightarrow> bool" where
  "truthy JUndefined = False"
| "truthy JNull = False"
| "truthy (JBool b) = b"
| "truthy (JNum i) = (i \<noteq> 0)"
| "truthy (JStr s) = (s \<noteq> [])"

text \<open>\<^verbatim>\<open>Array.prototype.join\<close> on an array of strings.\<close>

fun join :: "string \<Rightarrow> string list \<Rightarrow> string" where
  "join sep [] = []"
| "join sep [x] = x"
| "join sep (x # y # ys) = x @ sep @ join sep (y # ys)"

text \<open>
  \<^verbatim>\<open>Array.prototype.join\<close> on an array of leaves: \<^verbatim>\<open>undefined\<close> and \<^verbatim>\<open>null\<close>
  elements contribute the empty string, every other element its \<open>to_string\<close>.
\<close>

fun join_element :: "jsval \<Rightarrow> string" where
  "join_element JUndefined = []"
| "join_element JNull = []"
| "join_element v = to_string v"

definition array_join :: "string \<Rightarrow> jsval list \<Rightarrow> string" where
  "array_join sep vs = join sep (map join_element vs)"

text \<open>\<^verbatim>\<open>xs || []\<close> for a list that the document may lack.\<close>

definition or_empty :: "'a list option \<Rightarrow> 'a list" where
  "or_empty xs = (case xs of None \<Rightarrow> [] | Some ys \<Rightarrow> ys)"

text \<open>\<^verbatim>\<open>!xs || !xs.length\<close>\<close>

definition absent :: "'a list option \<Rightarrow> bool" where
  "absent xs = (case xs of None \<Rightarrow> True | Some ys \<Rightarrow> ys = [])"

section \<open>The code generation phases\<close>

datatype Context = INCLUDE | DECLARATION | INITIALIZATION | PROCESSING

section \<open>The hardware description\<close>

text \<open>
  One record per peripheral kind, with the fields the generators read. \<open>labels\<close> is
  \<open>None\<close> when the entry has no label list.
\<close>

record analog_control =
  ac_pin :: jsval
  ac_flip :: jsval
  ac_invert :: jsval
  ac_labels :: "jsval list option"

record encoder =
  enc_pin_a :: jsval
  enc_pin_b :: jsval
  enc_pin_switch :: jsval
  enc_labels :: "jsval list option"

record switch =
  sw_pin :: jsval
  sw_type :: jsval
  sw_polarity :: jsval
  sw_pull :: jsval
  sw_labels :: "jsval list option"

record led =
  led_pin :: jsval
  led_invert :: jsval
  led_labels :: "jsval list option"

record rgb_led =
  rgb_pin_r :: jsval
  rgb_pin_g :: jsval
  rgb_pin_b :: jsval
  rgb_invert :: jsval
  rgb_labels :: "jsval list option"

record gate_input =
  gi_pin :: jsval
  gi_labels :: "jsval list option"

record four_wire_spi_config =
  pin_dc :: jsval
  pin_reset :: jsval

record i2c_config =
  address :: jsval
  peripheral :: jsval
  speed :: jsval
  pin_sda :: jsval
  pin_scl :: jsval

text \<open>
  A display entry. \<open>driver_name\<close> is the field that \<^verbatim>\<open>generateOledDisplays\<close> writes; the
  two nested transport configurations are \<open>None\<close> when the entry lacks them.
\<close>

record oled_display =
  driver :: jsval
  transport :: jsval
  dimensions :: jsval
  driver_name :: jsval
  spi_config :: "four_wire_spi_config option"
  i2c_cfg :: "i2c_config option"

section \<open>The peripheral generators\<close>

text \<open>
  The loop that every labelled kind repeats in its declaration branch:
  \<^verbatim>\<open>xs.forEach((x, idx) => { if (x.labels) { x.labels.forEach(label =>
      code.push(`T& ${label} = arr[${idx}];`)) } })\<close>
  with \<open>ty\<close> the C++ type and \<open>arr\<close> the array's name; \<open>lbls\<close> is the \<open>labels\<close> field of
  each entry, in list order.
\<close>

definition alias_line :: "string \<Rightarrow> string \<Rightarrow> nat \<Rightarrow> jsval \<Rightarrow> string" where
  "alias_line ty arr idx label =
     ty @ ''& '' @ to_string label @ '' = '' @ arr @ ''['' @ nat_to_string idx @ ''];''"

definition alias_lines :: "string \<Rightarrow> string \<Rightarrow> jsval list option list \<Rightarrow> string list" where
  "alias_lines ty arr lbls =
     concat (map (\<lambda>(idx, ls). case ls of None \<Rightarrow> [] | Some labels \<Rightarrow> map (alias_line ty arr idx) labels)
                 (enumerate 0 lbls))"

subsection \<open>Analog controls and CV inputs\<close>

definition analog_controls_declaration :: "analog_control list \<Rightarrow> string list" where
  "analog_controls_declaration all_controls =
     [''// analog_controls declaration'',
      ''AnalogControl controls['' @ nat_to_string (length all_controls) @ ''];'']
     @ alias_lines ''AnalogControl'' ''controls'' (map ac_labels all_controls)"

text \<open>The three lines pushed for the entry at index \<open>idx\<close> of the merged array.\<close>

definition analog_control_cfg :: "nat \<Rightarrow> analog_control \<Rightarrow> string" where
  "analog_control_cfg idx analog_control =
     ''cfg['' @ nat_to_string idx @ ''].InitSingle(seed.GetPin(''
       @ to_string (ac_pin analog_control) @ ''));''"

definition analog_control_init :: "nat \<Rightarrow> analog_control \<Rightarrow> string" where
  "analog_control_init idx analog_control =
     ''controls['' @ nat_to_string idx @ ''].Init(seed.adc.GetPtr('' @ nat_to_string idx
       @ ''), seed.AudioCallbackRate(), ''
       @ bool_to_string (truthy (ac_flip analog_control)) @ '', ''
       @ bool_to_string (truthy (ac_invert analog_control)) @ '');''"

definition analog_control_process :: "nat \<Rightarrow> analog_control \<Rightarrow> string" where
  "analog_control_process idx analog_control =
     ''controls['' @ nat_to_string idx @ ''].Process();''"

definition analog_controls_initialization :: "analog_control list \<Rightarrow> string list" where
  "analog_controls_initialization all_controls =
     [''// BEGIN - analog_controls initialization'',
      ''AdcChannelConfig cfg['' @ nat_to_string (length all_controls) @ ''];'']
     @ map (\<lambda>(idx, analog_control). analog_control_cfg idx analog_control)
        (enumerate 0 all_controls)
     @ [''seed.adc.Init(cfg, '' @ nat_to_string (length all_controls) @ '');'']
     @ map (\<lambda>(idx, analog_control). analog_control_init idx analog_control)
        (enumerate 0 all_controls)
     @ [''seed.adc.Start();'',
        ''// END - analog_controls initialization'']"

definition analog_controls_processing :: "analog_control list \<Rightarrow> string list" where
  "analog_controls_processing all_controls =
     [''// process analog_controls'']
     @ map (\<lambda>(idx, analog_control). analog_control_process idx analog_control)
        (enumerate 0 all_controls)"

definition generateAnalogControls ::
  "analog_control list option \<Rightarrow> analog_control list option \<Rightarrow> Context \<Rightarrow> string" where
  "generateAnalogControls analog_controls cv_inputs context =
     (let all_controls = [] @ or_empty analog_controls @ or_empty cv_inputs in
      if all_controls = [] then []
      else if context = DECLARATION then
        join ''\<newline>    '' (analog_controls_declaration all_controls)
      else if context = INITIALIZATION then
        join ''\<newline>        '' (analog_controls_initialization all_controls)
      else if context = PROCESSING then
        join ''\<newline>        '' (analog_controls_processing all_controls)
      else [])"

subsection \<open>CV outputs\<close>

text \<open>
  The DAC has two channels: a longer list is cut to its first two entries, and the
  initialization that follows reads none of them.
\<close>

definition cv_outputs_initialization :: "string list" where
  "cv_outputs_initialization =
     [''// BEGIN - cv_outputs initialization'',
      ''DacHandle::Config dac_cfg;'',
      ''dac_cfg.bitdepth   = DacHandle::BitDepth::BITS_12;'',
      ''dac_cfg.buff_state = DacHandle::BufferState::ENABLED;'',
      ''dac_cfg.mode       = DacHandle::Mode::POLLING;'',
      ''dac_cfg.chn        = DacHandle::Channel::BOTH;'',
      ''seed.dac.Init(dac_cfg);'',
      ''seed.dac.WriteValue(DacHandle::Channel::BOTH, 0);'',
      ''// END - cv_outputs initialization'']"

definition generateCvOutputs :: "'co list option \<Rightarrow> Context \<Rightarrow> string" where
  "generateCvOutputs cv_outputs context =
     (if absent cv_outputs then []
      else
        let cv_outputs = (if length (or_empty cv_outputs) > 2
                          then Some (take 2 (or_empty cv_outputs)) else cv_outputs) in
        if context = INITIALIZATION then
          join ''\<newline>        '' cv_outputs_initialization
        else [])"

subsection \<open>Encoders\<close>

definition encoders_declaration :: "encoder list \<Rightarrow> string list" where
  "encoders_declaration encoders =
     [''//  encoders declaration'',
      ''Encoder encoders['' @ nat_to_string (length encoders) @ ''];'',
      ''Encoder& encoder = encoders[0];'']
     @ alias_lines ''Encoder'' ''encoders'' (map enc_labels encoders)"

definition encoders_initialization :: "encoder list \<Rightarrow> string list" where
  "encoders_initialization encoders =
     [''// BEGIN - encoders initialization'']
     @ map (\<lambda>(idx, encoder).
          ''encoders['' @ nat_to_string idx @ ''].Init(seed.GetPin('' @ to_string (enc_pin_a encoder) @ ''), seed.GetPin('' @ to_string (enc_pin_b encoder) @ ''), seed.GetPin('' @ to_string (enc_pin_switch encoder) @ ''), seed.AudioCallbackRate());'')
        (enumerate 0 encoders)
     @ [''// END - encoders initialization'']"

definition encoders_processing :: "encoder list \<Rightarrow> string list" where
  "encoders_processing encoders =
     [''// process encoders'']
     @ map (\<lambda>(idx, encoder). ''encoders['' @ nat_to_string idx @ ''].Debounce();'')
        (enumerate 0 encoders)"

definition generateEncoders :: "encoder list option \<Rightarrow> Context \<Rightarrow> string" where
  "generateEncoders encoders context =
     (if absent encoders then []
      else if context = DECLARATION then
        join ''\<newline>    '' (encoders_declaration (or_empty encoders))
      else if context = INITIALIZATION then
        join ''\<newline>        '' (encoders_initialization (or_empty encoders))
      else if context = PROCESSING then
        join ''\<newline>        '' (encoders_processing (or_empty encoders))
      else [])"

subsection \<open>Switches\<close>

definition switches_declaration :: "switch list \<Rightarrow> string list" where
  "switches_declaration switches =
     [''//  switches declaration'',
      ''Switch switches['' @ nat_to_string (length switches) @ ''];'']
     @ alias_lines ''Switch'' ''switches'' (map sw_labels switches)"

definition switches_initialization :: "switch list \<Rightarrow> string list" where
  "switches_initialization switches =
     [''// BEGIN - switches initialization'']
     @ map (\<lambda>(idx, switch).
          ''switches['' @ nat_to_string idx @ ''].Init(seed.GetPin('' @ to_string (sw_pin switch) @ ''), seed.AudioCallbackRate(), Switch::Type::'' @ to_string (sw_type switch) @ '', Switch::Polarity::'' @ to_string (sw_polarity switch) @ '', Switch::Pull::'' @ to_string (sw_pull switch) @ '');'')
        (enumerate 0 switches)
     @ [''// END - switches initialization'']"

definition switches_processing :: "switch list \<Rightarrow> string list" where
  "switches_processing switches =
     [''// process switches'']
     @ map (\<lambda>(idx, switch). ''switches['' @ nat_to_string idx @ ''].Debounce();'')
        (enumerate 0 switches)"

definition generateSwitches :: "switch list option \<Rightarrow> Context \<Rightarrow> string" where
  "generateSwitches switches context =
     (if absent switches then []
      else if context = DECLARATION then
        join ''\<newline>    '' (switches_declaration (or_empty switches))
      else if context = INITIALIZATION then
        join ''\<newline>        '' (switches_initialization (or_empty switches))
      else if context = PROCESSING then
        join ''\<newline>        '' (switches_processing (or_empty switches))
      else [])"

subsection \<open>LEDs\<close>

definition leds_declaration :: "led list \<Rightarrow> string list" where
  "leds_declaration leds =
     [''//  leds declaration'',
      ''Led leds['' @ nat_to_string (length leds) @ ''];'']
     @ alias_lines ''Led'' ''leds'' (map led_labels leds)"

definition leds_initialization :: "led list \<Rightarrow> string list" where
  "leds_initialization leds =
     [''// BEGIN - leds initialization'']
     @ map (\<lambda>(idx, led).
          ''leds['' @ nat_to_string idx @ ''].Init(seed.GetPin('' @ to_string (led_pin led) @ ''), '' @ bool_to_string (truthy (led_invert led)) @ '');'')
        (enumerate 0 leds)
     @ [''// END - leds initialization'']"

definition leds_processing :: "led list \<Rightarrow> string list" where
  "leds_processing leds =
     [''// process leds'']
     @ map (\<lambda>(idx, led). ''leds['' @ nat_to_string idx @ ''].Update();'')
        (enumerate 0 leds)"

definition generateLeds :: "led list option \<Rightarrow> Context \<Rightarrow> string" where
  "generateLeds leds context =
     (if absent leds then []
      else if context = DECLARATION then
        join ''\<newline>    '' (leds_declaration (or_empty leds))
      else if context = INITIALIZATION then
        join ''\<newline>        '' (leds_initialization (or_empty leds))
      else if context = PROCESSING then
        join ''\<newline>        '' (leds_processing (or_empty leds))
      else [])"

subsection \<open>RGB LEDs\<close>

definition rgb_leds_declaration :: "rgb_led list \<Rightarrow> string list" where
  "rgb_leds_declaration rgb_leds =
     [''//  rgb_leds declaration'',
      ''RgbLed rgb_leds['' @ nat_to_string (length rgb_leds) @ ''];'']
     @ alias_lines ''RgbLed'' ''rgb_leds'' (map rgb_labels rgb_leds)"

definition rgb_leds_initialization :: "rgb_led list \<Rightarrow> string list" where
  "rgb_leds_initialization rgb_leds =
     [''// BEGIN - rgb_leds initialization'']
     @ map (\<lambda>(idx, rgb_led).
          ''rgb_leds['' @ nat_to_string idx @ ''].Init(seed.GetPin('' @ to_string (rgb_pin_r rgb_led) @ ''), seed.GetPin('' @ to_string (rgb_pin_g rgb_led) @ ''), seed.GetPin('' @ to_string (rgb_pin_b rgb_led) @ ''), '' @ bool_to_string (truthy (rgb_invert rgb_led)) @ '');'')
        (enumerate 0 rgb_leds)
     @ [''// END - rgb_leds initialization'']"

definition rgb_leds_processing :: "rgb_led list \<Rightarrow> string list" where
  "rgb_leds_processing rgb_leds =
     [''// process rgb_leds'']
     @ map (\<lambda>(idx, rgb_led). ''rgb_leds['' @ nat_to_string idx @ ''].Update();'')
        (enumerate 0 rgb_leds)"

definition generateRgbLeds :: "rgb_led list option \<Rightarrow> Context \<Rightarrow> string" where
  "generateRgbLeds rgb_leds context =
     (if absent rgb_leds then []
      else if context = DECLARATION then
        join ''\<newline>    '' (rgb_leds_declaration (or_empty rgb_leds))
      else if context = INITIALIZATION then
        join ''\<newline>        '' (rgb_leds_initialization (or_empty rgb_leds))
      else if context = PROCESSING then
        join ''\<newline>        '' (rgb_leds_processing (or_empty rgb_leds))
      else [])"

subsection \<open>OLED displays\<close>

text \<open>
  The generator first writes \<open>driver_name\<close> onto every entry of the list it was given, and
  only then looks at the phase. The write is part of the model: the generator returns the
  list as it leaves it, next to its result.
\<close>

definition set_driver_name :: "oled_display \<Rightarrow> oled_display" where
  "set_driver_name oled_display =
     oled_display\<lparr>driver_name :=
       JStr (array_join [] [driver oled_display, transport oled_display,
                            dimensions oled_display, JStr ''Driver''])\<rparr>"

definition oled_displays_declaration :: "oled_display list \<Rightarrow> string list" where
  "oled_displays_declaration oled_displays =
     [''// OLED display declaration'']
     @ map (\<lambda>(idx, oled_display).
          ''OledDisplay<'' @ to_string (driver_name oled_display) @ ''> display'' @ (if idx = 0 then [] else nat_to_string idx) @ '';'')
        (enumerate 0 oled_displays)"

text \<open>
  One pass of the initialization loop, up to the transport branch. Reading a pin of a
  nested transport configuration that the entry does not have throws a \<^verbatim>\<open>TypeError\<close>.
\<close>

definition oled_display_config :: "nat \<Rightarrow> oled_display \<Rightarrow> error + string list" where
  "oled_display_config idx oled_display =
     (let code =
        [''// Display '' @ nat_to_string idx,
         ''OledDisplay<'' @ to_string (driver_name oled_display) @ ''>::Config display_config'' @ nat_to_string idx @ '';'']
      in
      if transport oled_display = JStr ''4WireSpi'' then
        (case spi_config oled_display of
           None \<Rightarrow> Inl TypeError
         | Some cfg \<Rightarrow> Inr (code @
            [''display_config'' @ nat_to_string idx @ ''.driver_config.transport_config.pin_config.dc = seed.GetPin('' @ to_string (pin_dc cfg) @ '');'',
             ''display_config'' @ nat_to_string idx @ ''.driver_config.transport_config.pin_config.reset = seed.GetPin('' @ to_string (pin_reset cfg) @ '');'']))
      else if transport oled_display = JStr ''I2c'' then
        (case i2c_cfg oled_display of
           None \<Rightarrow> Inl TypeError
         | Some cfg \<Rightarrow> Inr (code @
            [''display_config'' @ nat_to_string idx @ ''.driver_config.transport_config.i2c_address = '' @ to_string (address cfg) @ '';'',
             ''display_config'' @ nat_to_string idx @ ''.driver_config.transport_config.i2c_config.periph = I2CHandle::Config::Peripheral::'' @ to_string (peripheral cfg) @ '';'',
             ''display_config'' @ nat_to_string idx @ ''.driver_config.transport_config.i2c_config.speed = I2CHandle::Config::Speed::'' @ to_string (speed cfg) @ '';'',
             ''display_config'' @ nat_to_string idx @ ''.driver_config.transport_config.i2c_config.pin_config.sda = seed.GetPin('' @ to_string (pin_sda cfg) @ '');'',
             ''display_config'' @ nat_to_string idx @ ''.driver_config.transport_config.i2c_config.pin_config.scl = seed.GetPin('' @ to_string (pin_scl cfg) @ '');'']))
      else Inr code)"

text \<open>The whole pass: the lines above, then the call that initializes the display.\<close>

definition oled_display_initialization :: "nat \<Rightarrow> oled_display \<Rightarrow> error + string list" where
  "oled_display_initialization idx oled_display =
     (case oled_display_config idx oled_display of
        Inl e \<Rightarrow> Inl e
      | Inr code \<Rightarrow> Inr (code @
         [''display'' @ (if idx = 0 then [] else nat_to_string idx) @ ''.Init(display_config'' @ nat_to_string idx @ '');'']))"

text \<open>The \<^verbatim>\<open>forEach\<close> of the initialization branch, \<open>code\<close> being the lines pushed so far.\<close>

fun oled_displays_initialization_loop ::
  "(nat \<times> oled_display) list \<Rightarrow> string list \<Rightarrow> error + string list" where
  "oled_displays_initialization_loop [] code = Inr code"
| "oled_displays_initialization_loop ((idx, oled_display) # rest) code =
     (case oled_display_initialization idx oled_display of
        Inl e \<Rightarrow> Inl e
      | Inr pushed \<Rightarrow> oled_displays_initialization_loop rest (code @ pushed))"

definition oled_displays_initialization :: "oled_display list \<Rightarrow> error + string list" where
  "oled_displays_initialization oled_displays =
     (case oled_displays_initialization_loop (enumerate 0 oled_displays)
             [''// BEGIN - OLED display initialization''] of
        Inl e \<Rightarrow> Inl e
      | Inr code \<Rightarrow> Inr (code @ [''// END - OLED display initialization'']))"

definition generateOledDisplays ::
  "oled_display list option \<Rightarrow> Context \<Rightarrow> (error + string) \<times> oled_display list option" where
  "generateOledDisplays oled_displays context =
     (if absent oled_displays then (Inr [], oled_displays)
      else
        let oled_displays = map set_driver_name (or_empty oled_displays) in
        (if context = INCLUDE then
           (if list_ex (\<lambda>oled_display. driver oled_display = JStr ''SSD130x'') oled_displays
            then Inr (''#include '' @ [CHR 0x22] @ ''dev/oled_ssd130x.h'' @ [CHR 0x22] @ ''\<newline>'')
            else Inr [])
         else if context = DECLARATION then
           Inr (join ''\<newline>    '' (oled_displays_declaration oled_displays))
         else if context = INITIALIZATION then
           (case oled_displays_initialization oled_displays of
              Inl e \<Rightarrow> Inl e
            | Inr code \<Rightarrow> Inr (join ''\<newline>        '' code))
         else Inr [],
         Some oled_displays))"

subsection \<open>Gate inputs\<close>

definition gate_inputs_declaration :: "gate_input list \<Rightarrow> string list" where
  "gate_inputs_declaration gate_inputs =
     [''//gate_inputs declaration'',
      ''GateIn gate_inputs['' @ nat_to_string (length gate_inputs) @ ''];'']
     @ alias_lines ''GateIn'' ''gate_inputs'' (map gi_labels gate_inputs)"

definition gate_inputs_initialization :: "gate_input list \<Rightarrow> string list" where
  "gate_inputs_initialization gate_inputs =
     [''// BEGIN - gate_inputs initialization'',
      ''dsy_gpio_pin gate_input_pin;'']
     @ concat (map (\<lambda>(idx, gate_input).
          [''gate_input_pin = seed.GetPin('' @ to_string (gi_pin gate_input) @ '');'',
           ''gate_inputs['' @ nat_to_string idx @ ''].Init(&gate_input_pin);''])
        (enumerate 0 gate_inputs))
     @ [''// END -  gate_inputs initialization'']"

definition generateGateInputs :: "gate_input list option \<Rightarrow> Context \<Rightarrow> string" where
  "generateGateInputs gate_inputs context =
     (if absent gate_inputs then []
      else if context = DECLARATION then
        join ''\<newline>    '' (gate_inputs_declaration (or_empty gate_inputs))
      else if context = INITIALIZATION then
        join ''\<newline>        '' (gate_inputs_initialization (or_empty gate_inputs))
      else [])"

subsection \<open>Gate outputs and MIDI handlers\<close>

definition generateGateOutputs :: "'a list option \<Rightarrow> Context \<Rightarrow> string" where
  "generateGateOutputs gate_outputs context = []"

definition generateMidiHandlers :: "'a list option \<Rightarrow> Context \<Rightarrow> string" where
  "generateMidiHandlers gate_outputs context = []"

section \<open>Entries that are null and labels that are not arrays\<close>














text \<open>
  \<^verbatim>\<open>generateCvOutputs\<close>, \<^verbatim>\<open>generateGateOutputs\<close> and \<^verbatim>\<open>generateMidiHandlers\<close> read no entry: their
  models above take lists of any entries, null ones included.
\<close>

section \<open>The composition driver\<close>

text \<open>
  The document. The entries of \<open>cv_outputs\<close>, \<open>gate_outputs\<close> and \<open>midi_handlers\<close> are
  never read, so their types are left open.
\<close>

record ('co, 'go, 'mh) hardware_description =
  analog_controls :: "analog_control list option"
  cv_inputs :: "analog_control list option"
  cv_outputs :: "'co list option"
  encoders :: "encoder list option"
  gate_inputs :: "gate_input list option"
  gate_outputs :: "'go list option"
  leds :: "led list option"
  midi_handlers :: "'mh list option"
  oled_displays :: "oled_display list option"
  rgb_leds :: "rgb_led list option"
  switches :: "switch list option"

text \<open>
  The template literal of \<^verbatim>\<open>generateCustomHardwareImpl\<close>, one template line per row, with
  the three results of the display generator passed in.
\<close>

definition hardware_implementation ::
  "('co, 'go, 'mh) hardware_description \<Rightarrow> string \<Rightarrow> string \<Rightarrow> string \<Rightarrow> string" where
  "hardware_implementation hardware_description oled_include oled_declaration oled_initialization =
       ''\<newline>'' @
       ''\<newline>'' @
       ''#include '' @ [CHR 0x22] @ ''daisy_seed.h'' @ [CHR 0x22] @ ''\<newline>'' @
       oled_include @ ''\<newline>'' @
       ''\<newline>'' @
       ''using namespace daisy;\<newline>'' @
       ''\<newline>'' @
       ''typedef struct {\<newline>'' @
       ''    DaisySeed seed;\<newline>'' @
       ''  \<newline>'' @
       ''    '' @ generateAnalogControls (analog_controls hardware_description) (cv_inputs hardware_description) DECLARATION @ ''\<newline>'' @
       ''\<newline>'' @
       ''    '' @ generateCvOutputs (cv_outputs hardware_description) DECLARATION @ ''\<newline>'' @
       ''    \<newline>'' @
       ''    '' @ generateEncoders (encoders hardware_description) DECLARATION @ ''\<newline>'' @
       ''\<newline>'' @
       ''    '' @ generateGateInputs (gate_inputs hardware_description) DECLARATION @ ''\<newline>'' @
       ''\<newline>'' @
       ''    '' @ generateGateOutputs (gate_inputs hardware_description) DECLARATION @ ''\<newline>'' @
       ''\<newline>'' @
       ''    '' @ generateLeds (leds hardware_description) DECLARATION @ ''\<newline>'' @
       ''\<newline>'' @
       ''    '' @ generateMidiHandlers (midi_handlers hardware_description) DECLARATION @ ''\<newline>'' @
       ''\<newline>'' @
       ''    '' @ oled_declaration @ ''\<newline>'' @
       ''    \<newline>'' @
       ''    '' @ generateRgbLeds (rgb_leds hardware_description) DECLARATION @ ''\<newline>'' @
       ''\<newline>'' @
       ''    '' @ generateSwitches (switches hardware_description) DECLARATION @ ''\<newline>'' @
       ''\<newline>'' @
       ''    void Init(bool boost) \<newline>'' @
       ''    {\<newline>'' @
       ''        seed.Configure();\<newline>'' @
       ''        seed.Init(boost);\<newline>'' @
       ''\<newline>'' @
       ''        '' @ generateAnalogControls (analog_controls hardware_description) (cv_inputs hardware_description) INITIALIZATION @ ''\<newline>'' @
       ''        \<newline>'' @
       ''        '' @ generateCvOutputs (cv_outputs hardware_description) INITIALIZATION @ ''\<newline>'' @
       ''\<newline>'' @
       ''        '' @ generateGateInputs (gate_inputs hardware_description) INITIALIZATION @ ''\<newline>'' @
       ''\<newline>'' @
       ''        '' @ generateGateOutputs (gate_inputs hardware_description) INITIALIZATION @ ''\<newline>'' @
       ''\<newline>'' @
       ''        '' @ generateEncoders (encoders hardware_description) INITIALIZATION @ ''\<newline>'' @
       ''\<newline>'' @
       ''        '' @ generateLeds (leds hardware_description) INITIALIZATION @ ''\<newline>'' @
       ''\<newline>'' @
       ''        '' @ generateMidiHandlers (midi_handlers hardware_description) INITIALIZATION @ ''\<newline>'' @
       ''\<newline>'' @
       ''        '' @ oled_initialization @ ''\<newline>'' @
       ''\<newline>'' @
       ''        '' @ generateRgbLeds (rgb_leds hardware_description) INITIALIZATION @ ''\<newline>'' @
       ''\<newline>'' @
       ''        '' @ generateSwitches (switches hardware_description) INITIALIZATION @ ''\<newline>'' @
       ''    }\<newline>'' @
       ''\<newline>'' @
       ''    void ProcessAnalogControls()\<newline>'' @
       ''    {\<newline>'' @
       ''        '' @ generateAnalogControls (analog_controls hardware_description) (cv_inputs hardware_description) PROCESSING @ ''\<newline>'' @
       ''    }\<newline>'' @
       ''\<newline>'' @
       ''    void ProcessDigitalControls()\<newline>'' @
       ''    {\<newline>'' @
       ''        '' @ generateEncoders (encoders hardware_description) PROCESSING @ ''\<newline>'' @
       ''\<newline>'' @
       ''        '' @ generateSwitches (switches hardware_description) PROCESSING @ ''\<newline>'' @
       ''    }\<newline>'' @
       ''\<newline>'' @
       ''    inline void ProcessAllControls()\<newline>'' @
       ''    {\<newline>'' @
       ''        ProcessAnalogControls();\<newline>'' @
       ''        ProcessDigitalControls();\<newline>'' @
       ''    }\<newline>'' @
       ''\<newline>'' @
       ''    void UpdateLeds()\<newline>'' @
       ''    {\<newline>'' @
       ''      '' @ generateLeds (leds hardware_description) PROCESSING @ ''\<newline>'' @
       ''      '' @ generateRgbLeds (rgb_leds hardware_description) PROCESSING @ ''\<newline>'' @
       ''    }\<newline>'' @
       ''\<newline>'' @
       ''  } Daisy;\<newline>'' @
       ''  ''"

text \<open>
  The substitutions of a template literal are evaluated from left to right, and the first
  one that throws ends the evaluation. Only the display generator can throw and only it
  writes to the document, so the driver threads the display list through its three calls;
  the result is the text, or the error, next to the document as the call leaves it.
\<close>

definition generateCustomHardwareImpl ::
  "('co, 'go, 'mh) hardware_description
     \<Rightarrow> (error + string) \<times> ('co, 'go, 'mh) hardware_description" where
  "generateCustomHardwareImpl hardware_description =
     (case generateOledDisplays (oled_displays hardware_description) INCLUDE of
        (Inl e, ds) \<Rightarrow> (Inl e, hardware_description\<lparr>oled_displays := ds\<rparr>)
      | (Inr oled_include, ds) \<Rightarrow>
     (case generateOledDisplays ds DECLARATION of
        (Inl e, ds) \<Rightarrow> (Inl e, hardware_description\<lparr>oled_displays := ds\<rparr>)
      | (Inr oled_declaration, ds) \<Rightarrow>
     (case generateOledDisplays ds INITIALIZATION of
        (Inl e, ds) \<Rightarrow> (Inl e, hardware_description\<lparr>oled_displays := ds\<rparr>)
      | (Inr oled_initialization, ds) \<Rightarrow>
          (Inr (hardware_implementation hardware_description
                  oled_include oled_declaration oled_initialization),
           hardware_description\<lparr>oled_displays := ds\<rparr>))))"


section \<open>Notions used to state the properties\<close>

text \<open>
  The naming convention in the words of the specification: index 0 yields the base name,
  a later index yields the base name followed by the index.
\<close>

definition spec_name :: "string \<Rightarrow> nat \<Rightarrow> string" where
  "spec_name base index = (if index = 0 then base else base @ nat_to_string index)"

text \<open>
  The alias bindings in the words of the specification: for each entry in order, counted
  from \<open>idx\<close>, and for each alias in the entry's label list in order, the alias paired with
  the entry's index.
\<close>

fun alias_bindings :: "nat \<Rightarrow> jsval list option list \<Rightarrow> (jsval \<times> nat) list" where
  "alias_bindings idx [] = []"
| "alias_bindings idx (None # rest) = alias_bindings (Suc idx) rest"
| "alias_bindings idx (Some labels # rest) =
     map (\<lambda>label. (label, idx)) labels @ alias_bindings (Suc idx) rest"

text \<open>
  A display entry carries the nested configuration that its transport asks for.
\<close>

definition transport_config_present :: "oled_display \<Rightarrow> bool" where
  "transport_config_present d =
     (if transport d = JStr ''4WireSpi'' then spi_config d \<noteq> None
      else if transport d = JStr ''I2c'' then i2c_cfg d \<noteq> None
      else True)"

text \<open>
  The ten peripheral kinds, and the fragment that the driver requests for a kind at a phase:
  the generator call that the template of \<^verbatim>\<open>generateCustomHardwareImpl\<close> makes for it. The
  gate output generator is handed the \<open>gate_inputs\<close> list.
\<close>

datatype kind =
  Analog | CvOutput | Encoder | GateInput | GateOutput | Led | MidiHandler | Display | RgbLed | Switch

fun fragment :: "('co, 'go, 'mh) hardware_description \<Rightarrow> kind \<Rightarrow> Context \<Rightarrow> string" where
  "fragment doc Analog ctx = generateAnalogControls (analog_controls doc) (cv_inputs doc) ctx"
| "fragment doc CvOutput ctx = generateCvOutputs (cv_outputs doc) ctx"
| "fragment doc Encoder ctx = generateEncoders (encoders doc) ctx"
| "fragment doc GateInput ctx = generateGateInputs (gate_inputs doc) ctx"
| "fragment doc GateOutput ctx = generateGateOutputs (gate_inputs doc) ctx"
| "fragment doc Led ctx = generateLeds (leds doc) ctx"
| "fragment doc MidiHandler ctx = generateMidiHandlers (midi_handlers doc) ctx"
| "fragment doc Display ctx =
     (case fst (generateOledDisplays (oled_displays doc) ctx) of Inl e \<Rightarrow> [] | Inr t \<Rightarrow> t)"
| "fragment doc RgbLed ctx = generateRgbLeds (rgb_leds doc) ctx"
| "fragment doc Switch ctx = generateSwitches (switches doc) ctx"

text \<open>
  The order in which the specification lists the kinds, which is the order of the
  declaration substitutions in the template, and the order of the initialization
  substitutions in the template.
\<close>

definition declaration_order :: "kind list" where
  "declaration_order =
     [Analog, CvOutput, Encoder, GateInput, GateOutput, Led, MidiHandler, Display, RgbLed, Switch]"

definition initialization_order :: "kind list" where
  "initialization_order =
     [Analog, CvOutput, GateInput, GateOutput, Encoder, Led, MidiHandler, Display, RgbLed, Switch]"

text \<open>
  \<open>in_order fs t\<close>: the texts \<open>fs\<close> occur in \<open>t\<close> one after the other, without overlap.
  \<open>after_first f t\<close> is what follows the first occurrence of \<open>f\<close> in \<open>t\<close>; taking the
  first occurrence each time finds an arrangement whenever there is one.
\<close>

fun strip_prefix :: "string \<Rightarrow> string \<Rightarrow> string option" where
  "strip_prefix [] t = Some t"
| "strip_prefix (a # f) [] = None"
| "strip_prefix (a # f) (c # t) = (if a = c then strip_prefix f t else None)"

fun after_first :: "string \<Rightarrow> string \<Rightarrow> string option" where
  "after_first f [] = (if f = [] then Some [] else None)"
| "after_first f (c # t) =
     (case strip_prefix f (c # t) of Some r \<Rightarrow> Some r | None \<Rightarrow> after_first f t)"

fun in_order :: "string list \<Rightarrow> string \<Rightarrow> bool" where
  "in_order [] t = True"
| "in_order (f # fs) t = (case after_first f t of None \<Rightarrow> False | Some r \<Rightarrow> in_order fs r)"

text \<open>The text of a successful generation (empty when the generation throws).\<close>

definition generated_text :: "('co, 'go, 'mh) hardware_description \<Rightarrow> string" where
  "generated_text doc = (case fst (generateCustomHardwareImpl doc) of Inl e \<Rightarrow> [] | Inr t \<Rightarrow> t)"

text \<open>
  The initialization routine holds the initialization fragments of the kinds in the given
  order: after the line of the platform bring-up call and before the routine that follows
  \<open>Init\<close>. Likewise the type declaration, between the platform handle and \<open>Init\<close>.
\<close>

definition initialization_follows :: "kind list \<Rightarrow> ('co, 'go, 'mh) hardware_description \<Rightarrow> bool" where
  "initialization_follows order doc =
     in_order ([''        seed.Init(boost);\<newline>'']
               @ map (\<lambda>k. fragment doc k INITIALIZATION) order
               @ [''    void ProcessAnalogControls()\<newline>''])
       (generated_text doc)"

definition declaration_follows :: "kind list \<Rightarrow> ('co, 'go, 'mh) hardware_description \<Rightarrow> bool" where
  "declaration_follows order doc =
     in_order ([''    DaisySeed seed;\<newline>'']
               @ map (\<lambda>k. fragment doc k DECLARATION) order
               @ [''    void Init(bool boost) \<newline>''])
       (generated_text doc)"

section \<open>Example documents\<close>

definition knob :: "int \<Rightarrow> analog_control" where
  "knob p = \<lparr>ac_pin = JNum p, ac_flip = JUndefined, ac_invert = JUndefined, ac_labels = None\<rparr>"

definition foo_switch :: switch where
  "foo_switch = \<lparr>sw_pin = JNum 1, sw_type = JUndefined, sw_polarity = JUndefined,
                  sw_pull = JUndefined, sw_labels = Some [JStr ''foo'']\<rparr>"

definition i2c_display :: oled_display where
  "i2c_display =
     \<lparr>driver = JStr ''SSD130x'', transport = JStr ''I2c'', dimensions = JStr ''128x64'',
      driver_name = JUndefined, spi_config = None,
      i2c_cfg = Some \<lparr>address = JNum 60, peripheral = JStr ''I2C_1'', speed = JStr ''I2C_1MHZ'',
                       pin_sda = JNum 12, pin_scl = JNum 11\<rparr>\<rparr>"

definition spi_display :: oled_display where
  "spi_display =
     \<lparr>driver = JStr ''SSD130x'', transport = JStr ''4WireSpi'', dimensions = JStr ''128x64'',
      driver_name = JUndefined, spi_config = Some \<lparr>pin_dc = JNum 9, pin_reset = JNum 30\<rparr>,
      i2c_cfg = None\<rparr>"


definition empty_document :: "(unit, unit, unit) hardware_description" where
  "empty_document =
     \<lparr>analog_controls = None, cv_inputs = None, cv_outputs = None, encoders = None,
      gate_inputs = None, gate_outputs = None, leds = None, midi_handlers = None,
      oled_displays = None, rgb_leds = None, switches = None\<rparr>"

definition encoder_and_gate :: "(unit, unit, unit) hardware_description" where
  "encoder_and_gate =
     \<lparr>analog_controls = None, cv_inputs = None, cv_outputs = None,
      encoders = Some [\<lparr>enc_pin_a = JNum 1, enc_pin_b = JNum 2, enc_pin_switch = JNum 3,
                        enc_labels = None\<rparr>],
      gate_inputs = Some [\<lparr>gi_pin = JNum 20, gi_labels = None\<rparr>],
      gate_outputs = None, leds = None, midi_handlers = None, oled_displays = None,
      rgb_leds = None, switches = None\<rparr>"

section \<open>Basic facts\<close>

lemma absent_Some [simp]: "absent (Some xs) = (xs = [])"
  by (simp add: absent_def)

lemma absent_None [simp]: "absent None"
  by (simp add: absent_def)

lemma or_empty_simps [simp]: "or_empty None = []" "or_empty (Some xs) = xs"
  by (simp_all add: or_empty_def)

lemma set_driver_name_joined:
  "driver_name (set_driver_name d) =
     JStr (join_element (driver d) @ join_element (transport d) @ join_element (dimensions d)
           @ ''Driver'')"
  by (simp add: set_driver_name_def array_join_def)

lemma enumerate_append: "enumerate n (xs @ ys) = enumerate n xs @ enumerate (n + length xs) ys"
  by (simp add: enumerate_append_eq)

lemma enumerate_map:
  "enumerate n (map f xs) = map (\<lambda>(i, x). (i, f x)) (enumerate n xs)"
  by (induction xs arbitrary: n) simp_all

subsection \<open>Label aliases\<close>

lemma alias_lines_from:
  "concat (map (\<lambda>(idx, ls). case ls of None \<Rightarrow> [] | Some labels \<Rightarrow> map (alias_line ty arr idx) labels)
               (enumerate n lbls))
   = map (\<lambda>(label, idx). alias_line ty arr idx label) (alias_bindings n lbls)"
proof (induction lbls arbitrary: n)
  case Nil
  then show ?case by simp
next
  case (Cons l lbls)
  then show ?case by (cases l) (simp_all add: comp_def)
qed

lemma alias_lines_bindings:
  "alias_lines ty arr lbls = map (\<lambda>(label, idx). alias_line ty arr idx label) (alias_bindings 0 lbls)"
  by (simp add: alias_lines_def alias_lines_from)

subsection \<open>The display generator and its write\<close>

lemma set_driver_name_fields [simp]:
  "driver (set_driver_name d) = driver d"
  "transport (set_driver_name d) = transport d"
  "dimensions (set_driver_name d) = dimensions d"
  "spi_config (set_driver_name d) = spi_config d"
  "i2c_cfg (set_driver_name d) = i2c_cfg d"
  by (simp_all add: set_driver_name_def)

lemma set_driver_name_idem [simp]: "set_driver_name (set_driver_name d) = set_driver_name d"
  by (simp add: set_driver_name_def)

text \<open>A call of the generator on the list that an earlier call left behaves as on the original.\<close>

lemma generateOledDisplays_again:
  "generateOledDisplays (snd (generateOledDisplays ds c1)) c2 = generateOledDisplays ds c2"
  by (cases ds) (simp_all add: generateOledDisplays_def Let_def comp_def)

lemma generateOledDisplays_snd:
  "snd (generateOledDisplays ds c1) = snd (generateOledDisplays ds c2)"
  by (simp add: generateOledDisplays_def Let_def)

lemma set_driver_name_overwrites [simp]:
  "set_driver_name (d\<lparr>driver_name := v\<rparr>) = set_driver_name d"
  by (simp add: set_driver_name_def)

lemma generateOledDisplays_driver_name:
  "fst (generateOledDisplays (map_option (map (\<lambda>d. d\<lparr>driver_name := v d\<rparr>)) ds) ctx)
     = fst (generateOledDisplays ds ctx)"
  by (cases ds) (simp_all add: generateOledDisplays_def Let_def comp_def)

lemma declaration_line:
  "''OledDisplay<'' @ x @ ''> display'' @ (if idx = 0 then [] else nat_to_string idx) @ '';''
     = ''OledDisplay<'' @ x @ ''> '' @ spec_name ''display'' idx @ '';''"
  by (simp add: spec_name_def)

lemma oled_displays_declaration_names:
  "oled_displays_declaration xs =
     ''// OLED display declaration'' #
     map (\<lambda>(idx, d). ''OledDisplay<'' @ to_string (driver_name d) @ ''> ''
                        @ spec_name ''display'' idx @ '';'')
       (enumerate 0 xs)"
  unfolding oled_displays_declaration_def declaration_line by simp

lemma oled_display_initialization_last:
  "oled_display_initialization idx d = Inr block \<Longrightarrow>
     last block = spec_name ''display'' idx @ ''.Init(display_config'' @ nat_to_string idx @ '');''"
  by (auto simp add: oled_display_initialization_def spec_name_def split: sum.splits)

lemma initialization_loop_blocks:
  "oled_displays_initialization_loop es code = Inr out \<Longrightarrow>
     \<exists>blocks. length blocks = length es \<and> out = code @ concat blocks
        \<and> (\<forall>i<length es. oled_display_initialization (fst (es ! i)) (snd (es ! i)) = Inr (blocks ! i))"
proof (induction es arbitrary: code out)
  case Nil
  then show ?case by simp
next
  case (Cons e es)
  obtain idx d where e: "e = (idx, d)" by (cases e)
  from Cons.prems e obtain pushed where
    p: "oled_display_initialization idx d = Inr pushed"
    and r: "oled_displays_initialization_loop es (code @ pushed) = Inr out"
    by (auto split: sum.splits)
  from Cons.IH [OF r] obtain blocks where
    b: "length blocks = length es" "out = (code @ pushed) @ concat blocks"
       "\<forall>i<length es. oled_display_initialization (fst (es ! i)) (snd (es ! i)) = Inr (blocks ! i)"
    by blast
  have "\<forall>i<length (e # es). oled_display_initialization (fst ((e # es) ! i)) (snd ((e # es) ! i))
          = Inr ((pushed # blocks) ! i)"
    using b(3) p e by (auto simp add: nth_Cons split: nat.splits)
  with b(1,2) show ?case
    by (intro exI [of _ "pushed # blocks"]) simp
qed




lemma transport_config_present_set_driver_name [simp]:
  "transport_config_present (set_driver_name d) = transport_config_present d"
  by (simp add: transport_config_present_def)


subsection \<open>The driver\<close>

lemma hardware_implementation_oled_displays:
  "hardware_implementation (doc\<lparr>oled_displays := ds\<rparr>) a b c = hardware_implementation doc a b c"
  by (simp add: hardware_implementation_def)

text \<open>The result of the driver in terms of the display generator run on the original list.\<close>

lemma generateCustomHardwareImpl_fst:
  "fst (generateCustomHardwareImpl doc) =
     (case fst (generateOledDisplays (oled_displays doc) INCLUDE) of
        Inl e \<Rightarrow> Inl e
      | Inr a \<Rightarrow>
     (case fst (generateOledDisplays (oled_displays doc) DECLARATION) of
        Inl e \<Rightarrow> Inl e
      | Inr b \<Rightarrow>
     (case fst (generateOledDisplays (oled_displays doc) INITIALIZATION) of
        Inl e \<Rightarrow> Inl e
      | Inr c \<Rightarrow> Inr (hardware_implementation doc a b c))))"
proof -
  obtain r1 d1 where g1: "generateOledDisplays (oled_displays doc) INCLUDE = (r1, d1)"
    by (cases "generateOledDisplays (oled_displays doc) INCLUDE")
  have d1: "d1 = snd (generateOledDisplays (oled_displays doc) INCLUDE)" using g1 by simp
  obtain r2 d2 where g2: "generateOledDisplays (oled_displays doc) DECLARATION = (r2, d2)"
    by (cases "generateOledDisplays (oled_displays doc) DECLARATION")
  have d2: "d2 = snd (generateOledDisplays (oled_displays doc) DECLARATION)" using g2 by simp
  have g2': "generateOledDisplays d1 DECLARATION = (r2, d2)"
    unfolding d1 generateOledDisplays_again by (rule g2)
  obtain r3 d3 where g3: "generateOledDisplays (oled_displays doc) INITIALIZATION = (r3, d3)"
    by (cases "generateOledDisplays (oled_displays doc) INITIALIZATION")
  have g3': "generateOledDisplays d2 INITIALIZATION = (r3, d3)"
    unfolding d2 generateOledDisplays_again by (rule g3)
  show ?thesis
    by (simp add: generateCustomHardwareImpl_def g1 g2 g2' g3 g3' split: sum.splits)
qed

lemma generateCustomHardwareImpl_snd:
  "snd (generateCustomHardwareImpl doc) =
     doc\<lparr>oled_displays := snd (generateOledDisplays (oled_displays doc) INCLUDE)\<rparr>"
proof -
  obtain r1 d1 where g1: "generateOledDisplays (oled_displays doc) INCLUDE = (r1, d1)"
    by (cases "generateOledDisplays (oled_displays doc) INCLUDE")
  have d1: "d1 = snd (generateOledDisplays (oled_displays doc) INCLUDE)" using g1 by simp
  obtain r2 d2 where g2: "generateOledDisplays (oled_displays doc) DECLARATION = (r2, d2)"
    by (cases "generateOledDisplays (oled_displays doc) DECLARATION")
  have d2: "d2 = snd (generateOledDisplays (oled_displays doc) DECLARATION)" using g2 by simp
  have g2': "generateOledDisplays d1 DECLARATION = (r2, d2)"
    unfolding d1 generateOledDisplays_again by (rule g2)
  obtain r3 d3 where g3: "generateOledDisplays (oled_displays doc) INITIALIZATION = (r3, d3)"
    by (cases "generateOledDisplays (oled_displays doc) INITIALIZATION")
  have d3: "d3 = snd (generateOledDisplays (oled_displays doc) INITIALIZATION)" using g3 by simp
  have g3': "generateOledDisplays d2 INITIALIZATION = (r3, d3)"
    unfolding d2 generateOledDisplays_again by (rule g3)
  have same: "d2 = d1" "d3 = d1"
    unfolding d1 d2 d3 by (rule generateOledDisplays_snd)+
  have g2'': "generateOledDisplays d1 DECLARATION = (r2, d1)"
    using g2' same by simp
  have g3'': "generateOledDisplays d1 INITIALIZATION = (r3, d1)"
    using g3' same by simp
  show ?thesis
    by (simp add: generateCustomHardwareImpl_def g1 g2'' g3'' d1 [symmetric] split: sum.splits)
qed

subsection \<open>Texts in order\<close>

lemma strip_prefix_iff: "strip_prefix f t = Some r \<longleftrightarrow> t = f @ r"
proof (induction f t rule: strip_prefix.induct)
  case (1 t)
  then show ?case by auto
next
  case (2 a f)
  then show ?case by simp
next
  case (3 a f c t)
  then show ?case by auto
qed

lemma after_first_sound: "after_first f t = Some r \<Longrightarrow> \<exists>a. t = a @ f @ r"
proof (induction t)
  case Nil
  then show ?case by (simp split: if_splits)
next
  case (Cons c t)
  show ?case
  proof (cases "strip_prefix f (c # t)")
    case None
    with Cons.prems have "after_first f t = Some r" by simp
    from Cons.IH [OF this] obtain a where "t = a @ f @ r" ..
    then have "c # t = (c # a) @ f @ r" by simp
    then show ?thesis ..
  next
    case (Some r')
    with Cons.prems have "r' = r" by simp
    with Some have "c # t = [] @ f @ r" by (simp add: strip_prefix_iff)
    then show ?thesis ..
  qed
qed

lemma longer_suffix:
  assumes "xs @ r' = ys @ r" and "length r \<le> length r'"
  shows "\<exists>x. r' = x @ r"
  using assms by (auto simp add: append_eq_append_conv2)

lemma after_first_complete: "\<exists>x. after_first f (a @ f @ r) = Some (x @ r)"
proof (induction a)
  case Nil
  show ?case
  proof (cases "f @ r")
    case Nil
    then show ?thesis by simp
  next
    case (Cons c t)
    have "strip_prefix f (f @ r) = Some r" by (simp add: strip_prefix_iff)
    with Cons have "after_first f ([] @ f @ r) = Some ([] @ r)" by simp
    then show ?thesis ..
  qed
next
  case (Cons c a)
  show ?case
  proof (cases "strip_prefix f (c # a @ f @ r)")
    case None
    then have "after_first f ((c # a) @ f @ r) = after_first f (a @ f @ r)" by simp
    with Cons.IH show ?thesis by simp
  next
    case (Some r')
    then have eq: "f @ r' = (c # a @ f) @ r" by (simp add: strip_prefix_iff)
    then have "length (f @ r') = length ((c # a @ f) @ r)" by (rule arg_cong)
    then have "length r \<le> length r'" by simp
    from longer_suffix [OF eq this] obtain x where "r' = x @ r" ..
    with Some have "after_first f ((c # a) @ f @ r) = Some (x @ r)" by simp
    then show ?thesis ..
  qed
qed

lemma in_order_skip: "in_order fs t \<Longrightarrow> in_order fs (x @ t)"
proof (induction fs arbitrary: t x)
  case Nil
  show ?case by simp
next
  case (Cons f fs)
  from Cons.prems obtain r where
    r: "after_first f t = Some r" and rest: "in_order fs r"
    by (auto split: option.splits)
  from after_first_sound [OF r] obtain a where "t = a @ f @ r" ..
  then have "x @ t = (x @ a) @ f @ r" by simp
  moreover obtain y where "after_first f ((x @ a) @ f @ r) = Some (y @ r)"
    using after_first_complete by blast
  ultimately have "after_first f (x @ t) = Some (y @ r)" by simp
  moreover have "in_order fs (y @ r)" using rest by (rule Cons.IH)
  ultimately show ?case by simp
qed

lemma in_order_here: "in_order fs t \<Longrightarrow> in_order (f # fs) (f @ t)"
proof -
  assume rest: "in_order fs t"
  obtain y where "after_first f ([] @ f @ t) = Some (y @ t)"
    using after_first_complete by blast
  moreover have "in_order fs (y @ t)" using rest by (rule in_order_skip)
  ultimately show ?thesis by simp
qed

lemma in_order_Nil: "in_order [] t"
  by simp

text \<open>
  \<open>in_order\<close> holds exactly when the text can be cut into the given pieces, in order, with
  anything between them.
\<close>

lemma in_order_iff:
  "in_order (f # fs) t \<longleftrightarrow> (\<exists>a r. t = a @ f @ r \<and> in_order fs r)"
proof
  assume "in_order (f # fs) t"
  then obtain r where r: "after_first f t = Some r" and rest: "in_order fs r"
    by (auto split: option.splits)
  from after_first_sound [OF r] rest show "\<exists>a r. t = a @ f @ r \<and> in_order fs r" by blast
next
  assume "\<exists>a r. t = a @ f @ r \<and> in_order fs r"
  then obtain a r where t: "t = a @ f @ r" and rest: "in_order fs r" by blast
  from rest have "in_order (f # fs) (f @ r)" by (rule in_order_here)
  then have "in_order (f # fs) (a @ f @ r)" by (rule in_order_skip)
  with t show "in_order (f # fs) t" by simp
qed

subsection \<open>Null entries and labels that are not arrays\<close>

















section \<open>Properties of the generators\<close>

text \<open>
  C1. Analog controls and CV inputs share one array. Whenever the merged list is not
  empty, the declared size of \<open>controls\<close> and of \<open>cfg\<close> is the number of analog controls
  plus the number of CV inputs, and the channel configurations, the \<open>Init\<close> calls and the
  \<open>Process\<close> calls run through the analog controls first, indexed from 0 in input order,
  and then through the CV inputs, indexed from the number of analog controls on.
\<close>

theorem analog_merge_order:
  assumes "or_empty acs @ or_empty cvs \<noteq> []"
  shows "generateAnalogControls acs cvs DECLARATION =
           join ''\<newline>    ''
             ([''// analog_controls declaration'',
               ''AnalogControl controls[''
                 @ nat_to_string (length (or_empty acs) + length (or_empty cvs)) @ ''];'']
              @ alias_lines ''AnalogControl'' ''controls''
                  (map ac_labels (or_empty acs) @ map ac_labels (or_empty cvs)))
       \<and> generateAnalogControls acs cvs INITIALIZATION =
           join ''\<newline>        ''
             ([''// BEGIN - analog_controls initialization'',
               ''AdcChannelConfig cfg[''
                 @ nat_to_string (length (or_empty acs) + length (or_empty cvs)) @ ''];'']
              @ map (\<lambda>(idx, c). analog_control_cfg idx c) (enumerate 0 (or_empty acs))
              @ map (\<lambda>(idx, c). analog_control_cfg idx c)
                  (enumerate (length (or_empty acs)) (or_empty cvs))
              @ [''seed.adc.Init(cfg, ''
                 @ nat_to_string (length (or_empty acs) + length (or_empty cvs)) @ '');'']
              @ map (\<lambda>(idx, c). analog_control_init idx c) (enumerate 0 (or_empty acs))
              @ map (\<lambda>(idx, c). analog_control_init idx c)
                  (enumerate (length (or_empty acs)) (or_empty cvs))
              @ [''seed.adc.Start();'', ''// END - analog_controls initialization''])
       \<and> generateAnalogControls acs cvs PROCESSING =
           join ''\<newline>        ''
             ([''// process analog_controls'']
              @ map (\<lambda>(idx, c). analog_control_process idx c) (enumerate 0 (or_empty acs))
              @ map (\<lambda>(idx, c). analog_control_process idx c)
                  (enumerate (length (or_empty acs)) (or_empty cvs)))"
proof -
  have decl: "analog_controls_declaration (or_empty acs @ or_empty cvs) =
      [''// analog_controls declaration'',
       ''AnalogControl controls[''
         @ nat_to_string (length (or_empty acs) + length (or_empty cvs)) @ ''];'']
      @ alias_lines ''AnalogControl'' ''controls''
          (map ac_labels (or_empty acs) @ map ac_labels (or_empty cvs))"
    by (simp add: analog_controls_declaration_def)
  have init: "analog_controls_initialization (or_empty acs @ or_empty cvs) =
      [''// BEGIN - analog_controls initialization'',
       ''AdcChannelConfig cfg[''
         @ nat_to_string (length (or_empty acs) + length (or_empty cvs)) @ ''];'']
      @ map (\<lambda>(idx, c). analog_control_cfg idx c) (enumerate 0 (or_empty acs))
      @ map (\<lambda>(idx, c). analog_control_cfg idx c)
          (enumerate (length (or_empty acs)) (or_empty cvs))
      @ [''seed.adc.Init(cfg, ''
         @ nat_to_string (length (or_empty acs) + length (or_empty cvs)) @ '');'']
      @ map (\<lambda>(idx, c). analog_control_init idx c) (enumerate 0 (or_empty acs))
      @ map (\<lambda>(idx, c). analog_control_init idx c)
          (enumerate (length (or_empty acs)) (or_empty cvs))
      @ [''seed.adc.Start();'', ''// END - analog_controls initialization'']"
    by (simp add: analog_controls_initialization_def enumerate_append)
  have proc: "analog_controls_processing (or_empty acs @ or_empty cvs) =
      [''// process analog_controls'']
      @ map (\<lambda>(idx, c). analog_control_process idx c) (enumerate 0 (or_empty acs))
      @ map (\<lambda>(idx, c). analog_control_process idx c)
          (enumerate (length (or_empty acs)) (or_empty cvs))"
    by (simp add: analog_controls_processing_def enumerate_append)
  have gen: "generateAnalogControls acs cvs DECLARATION
        = join ''\<newline>    '' (analog_controls_declaration (or_empty acs @ or_empty cvs))"
      "generateAnalogControls acs cvs INITIALIZATION
        = join ''\<newline>        '' (analog_controls_initialization (or_empty acs @ or_empty cvs))"
      "generateAnalogControls acs cvs PROCESSING
        = join ''\<newline>        '' (analog_controls_processing (or_empty acs @ or_empty cvs))"
    using assms by (auto simp add: generateAnalogControls_def Let_def)
  show ?thesis
    unfolding gen decl init proc by simp
qed

theorem analog_merge_order_witness:
  "or_empty (Some [knob 15, knob 16]) @ or_empty (Some [knob 17]) \<noteq> []
   \<and> generateAnalogControls (Some [knob 15, knob 16]) (Some [knob 17]) DECLARATION
       = ''// analog_controls declaration\<newline>    AnalogControl controls[3];''
   \<and> generateAnalogControls (Some [knob 15, knob 16]) (Some [knob 17]) INITIALIZATION
       = ''// BEGIN - analog_controls initialization\<newline>        AdcChannelConfig cfg[3];\<newline>        cfg[0].InitSingle(seed.GetPin(15));\<newline>        cfg[1].InitSingle(seed.GetPin(16));\<newline>        cfg[2].InitSingle(seed.GetPin(17));\<newline>        seed.adc.Init(cfg, 3);\<newline>        controls[0].Init(seed.adc.GetPtr(0), seed.AudioCallbackRate(), false, false);\<newline>        controls[1].Init(seed.adc.GetPtr(1), seed.AudioCallbackRate(), false, false);\<newline>        controls[2].Init(seed.adc.GetPtr(2), seed.AudioCallbackRate(), false, false);\<newline>        seed.adc.Start();\<newline>        // END - analog_controls initialization''
   \<and> generateAnalogControls (Some [knob 15, knob 16]) (Some [knob 17]) PROCESSING
       = ''// process analog_controls\<newline>        controls[0].Process();\<newline>        controls[1].Process();\<newline>        controls[2].Process();''"
  using analog_merge_order [of "Some [knob 15, knob 16]" "Some [knob 17]"]
  by (simp add: knob_def alias_lines_def enumerate_eq_zip analog_control_cfg_def
      analog_control_init_def analog_control_process_def nat_to_string.simps digit_of_def
      int_to_string_def bool_to_string_def upt_rec)

text \<open>
  C2. A CV output list of more than two entries gives, at every phase, the text that a
  list of two entries gives, whatever the entries are: the one fixed DAC initialization
  at the initialization phase and the empty fragment elsewhere.
\<close>

theorem cv_outputs_truncated:
  assumes "2 < length xs" and "length ys = 2"
  shows "generateCvOutputs (Some xs) ctx = generateCvOutputs (Some ys) ctx
       \<and> generateCvOutputs (Some xs) ctx =
           (if ctx = INITIALIZATION then join ''\<newline>        '' cv_outputs_initialization else [])"
  using assms by (auto simp add: generateCvOutputs_def Let_def)

theorem cv_outputs_truncated_witness:
  "2 < length [JNum 1, JNum 2, JNum 3, JNum 4, JNum 5] \<and> length [True, False] = 2
   \<and> generateCvOutputs (Some [JNum 1, JNum 2, JNum 3, JNum 4, JNum 5]) INITIALIZATION
       = generateCvOutputs (Some [True, False]) INITIALIZATION
   \<and> generateCvOutputs (Some [JNum 1, JNum 2, JNum 3, JNum 4, JNum 5]) INITIALIZATION
       = ''// BEGIN - cv_outputs initialization\<newline>        DacHandle::Config dac_cfg;\<newline>        dac_cfg.bitdepth   = DacHandle::BitDepth::BITS_12;\<newline>        dac_cfg.buff_state = DacHandle::BufferState::ENABLED;\<newline>        dac_cfg.mode       = DacHandle::Mode::POLLING;\<newline>        dac_cfg.chn        = DacHandle::Channel::BOTH;\<newline>        seed.dac.Init(dac_cfg);\<newline>        seed.dac.WriteValue(DacHandle::Channel::BOTH, 0);\<newline>        // END - cv_outputs initialization''"
  using cv_outputs_truncated [of "[JNum 1, JNum 2, JNum 3, JNum 4, JNum 5]" "[True, False]" INITIALIZATION]
  by (auto simp add: cv_outputs_initialization_def)

text \<open>
  C5. After the display generator has run, at any phase, the \<open>driver_name\<close> of every
  entry is the join of its driver, transport and dimensions with \<open>Driver\<close> and the empty
  separator; for an entry whose three fields are strings that is the three strings
  followed by \<open>Driver\<close>, character for character.
\<close>

theorem driver_name_concatenation:
  assumes "i < length ds"
  shows "driver_name (or_empty (snd (generateOledDisplays (Some ds) ctx)) ! i)
           = JStr (join_element (driver (ds ! i)) @ join_element (transport (ds ! i))
                   @ join_element (dimensions (ds ! i)) @ ''Driver'')
       \<and> (driver (ds ! i) = JStr a \<and> transport (ds ! i) = JStr b \<and> dimensions (ds ! i) = JStr c
            \<longrightarrow> driver_name (or_empty (snd (generateOledDisplays (Some ds) ctx)) ! i)
                  = JStr (a @ b @ c @ ''Driver''))"
  using assms by (auto simp add: generateOledDisplays_def Let_def set_driver_name_joined)

theorem driver_name_concatenation_witness:
  "0 < length [\<lparr>driver = JStr ''SSD130x'', transport = JStr ''I2c'', dimensions = JStr ''128x64'',
              driver_name = JUndefined, spi_config = None, i2c_cfg = None\<rparr>]
   \<and> driver_name (or_empty (snd (generateOledDisplays
      (Some [\<lparr>driver = JStr ''SSD130x'', transport = JStr ''I2c'', dimensions = JStr ''128x64'',
              driver_name = JUndefined, spi_config = None, i2c_cfg = None\<rparr>]) DECLARATION)) ! 0)
   = JStr ''SSD130xI2c128x64Driver''"
  using driver_name_concatenation [where i = 0 and ds = "[\<lparr>driver = JStr ''SSD130x'',
      transport = JStr ''I2c'', dimensions = JStr ''128x64'', driver_name = JUndefined,
      spi_config = None, i2c_cfg = None\<rparr>]"
      and a = "''SSD130x''" and b = "''I2c''" and c = "''128x64''" and ctx = DECLARATION]
  by simp


text \<open>
  C8. The gate output generator and the MIDI handler generator return the empty fragment
  for every list and every phase.
\<close>

theorem placeholder_generators_empty:
  "generateGateOutputs gos ctx = [] \<and> generateMidiHandlers mhs ctx = []"
  by (simp add: generateGateOutputs_def generateMidiHandlers_def)

text \<open>
  C9. For each kind that has labels, the declaration fragment of a non-empty list is the
  kind's header lines followed by one alias reference per label: entry by entry in list
  order, within an entry label by label in list order, each one binding the label to the
  index of its entry in the kind's array.
\<close>

theorem label_aliases:
  "(or_empty acs @ or_empty cvs \<noteq> [] \<longrightarrow>
      generateAnalogControls acs cvs DECLARATION =
        join ''\<newline>    ''
          ([''// analog_controls declaration'',
            ''AnalogControl controls['' @ nat_to_string (length (or_empty acs @ or_empty cvs)) @ ''];'']
           @ map (\<lambda>(label, idx). ''AnalogControl& '' @ to_string label @ '' = controls['' @ nat_to_string idx @ ''];'')
               (alias_bindings 0 (map ac_labels (or_empty acs @ or_empty cvs)))))
 \<and> (es \<noteq> [] \<longrightarrow>
      generateEncoders (Some es) DECLARATION =
        join ''\<newline>    ''
          ([''//  encoders declaration'',
            ''Encoder encoders['' @ nat_to_string (length es) @ ''];'',
            ''Encoder& encoder = encoders[0];'']
           @ map (\<lambda>(label, idx). ''Encoder& '' @ to_string label @ '' = encoders['' @ nat_to_string idx @ ''];'')
               (alias_bindings 0 (map enc_labels es))))
 \<and> (sws \<noteq> [] \<longrightarrow>
      generateSwitches (Some sws) DECLARATION =
        join ''\<newline>    ''
          ([''//  switches declaration'',
            ''Switch switches['' @ nat_to_string (length sws) @ ''];'']
           @ map (\<lambda>(label, idx). ''Switch& '' @ to_string label @ '' = switches['' @ nat_to_string idx @ ''];'')
               (alias_bindings 0 (map sw_labels sws))))
 \<and> (ls \<noteq> [] \<longrightarrow>
      generateLeds (Some ls) DECLARATION =
        join ''\<newline>    ''
          ([''//  leds declaration'',
            ''Led leds['' @ nat_to_string (length ls) @ ''];'']
           @ map (\<lambda>(label, idx). ''Led& '' @ to_string label @ '' = leds['' @ nat_to_string idx @ ''];'')
               (alias_bindings 0 (map led_labels ls))))
 \<and> (rs \<noteq> [] \<longrightarrow>
      generateRgbLeds (Some rs) DECLARATION =
        join ''\<newline>    ''
          ([''//  rgb_leds declaration'',
            ''RgbLed rgb_leds['' @ nat_to_string (length rs) @ ''];'']
           @ map (\<lambda>(label, idx). ''RgbLed& '' @ to_string label @ '' = rgb_leds['' @ nat_to_string idx @ ''];'')
               (alias_bindings 0 (map rgb_labels rs))))
 \<and> (gs \<noteq> [] \<longrightarrow>
      generateGateInputs (Some gs) DECLARATION =
        join ''\<newline>    ''
          ([''//gate_inputs declaration'',
            ''GateIn gate_inputs['' @ nat_to_string (length gs) @ ''];'']
           @ map (\<lambda>(label, idx). ''GateIn& '' @ to_string label @ '' = gate_inputs['' @ nat_to_string idx @ ''];'')
               (alias_bindings 0 (map gi_labels gs))))"
  by (auto simp add: generateAnalogControls_def generateEncoders_def generateSwitches_def
      generateLeds_def generateRgbLeds_def generateGateInputs_def Let_def
      analog_controls_declaration_def encoders_declaration_def switches_declaration_def
      leds_declaration_def rgb_leds_declaration_def gate_inputs_declaration_def
      alias_lines_bindings alias_line_def)

theorem label_aliases_witness:
  "[foo_switch] \<noteq> []
   \<and> generateSwitches (Some [foo_switch]) DECLARATION
       = ''//  switches declaration\<newline>    Switch switches[1];\<newline>    Switch& foo = switches[0];''"
  using label_aliases [of _ _ _ "[foo_switch]"]
  by (simp add: foo_switch_def nat_to_string.simps digit_of_def)

text \<open>
  C6. For a non-empty display list, the declaration fragment declares the entry at index
  \<open>idx\<close> under the name that the naming convention gives for base \<open>display\<close> and \<open>idx\<close>:
  \<open>display\<close> for the first entry, \<open>display\<close> followed by the index for a later one. When
  the initialization fragment is produced, it is the opening comment, one block per entry
  in list order, and the closing comment; the block of the entry at index \<open>idx\<close> is what one
  pass of the loop pushes for it and ends with the \<open>Init\<close> call on that same name.
\<close>

theorem display_names:
  assumes "ds \<noteq> []"
  shows "fst (generateOledDisplays (Some ds) DECLARATION) =
           Inr (join ''\<newline>    ''
             (''// OLED display declaration'' #
              map (\<lambda>(idx, d). ''OledDisplay<'' @ to_string (driver_name (set_driver_name d)) @ ''> ''
                                @ spec_name ''display'' idx @ '';'')
                (enumerate 0 ds)))
       \<and> (\<forall>t. fst (generateOledDisplays (Some ds) INITIALIZATION) = Inr t \<longrightarrow>
            (\<exists>blocks. length blocks = length ds
               \<and> t = join ''\<newline>        ''
                     ([''// BEGIN - OLED display initialization''] @ concat blocks
                      @ [''// END - OLED display initialization''])
               \<and> (\<forall>i<length ds.
                     oled_display_initialization i (set_driver_name (ds ! i)) = Inr (blocks ! i)
                     \<and> last (blocks ! i) =
                         spec_name ''display'' i @ ''.Init(display_config'' @ nat_to_string i @ '');'')))"
proof (intro conjI allI impI)
  show "fst (generateOledDisplays (Some ds) DECLARATION) =
           Inr (join ''\<newline>    ''
             (''// OLED display declaration'' #
              map (\<lambda>(idx, d). ''OledDisplay<'' @ to_string (driver_name (set_driver_name d)) @ ''> ''
                                @ spec_name ''display'' idx @ '';'')
                (enumerate 0 ds)))"
    using assms
    by (simp add: generateOledDisplays_def Let_def oled_displays_declaration_names
        enumerate_map comp_def case_prod_unfold)
next
  fix t
  assume t: "fst (generateOledDisplays (Some ds) INITIALIZATION) = Inr t"
  from t assms obtain code where
    c: "oled_displays_initialization (map set_driver_name ds) = Inr code"
    and tc: "t = join ''\<newline>        '' code"
    by (auto simp add: generateOledDisplays_def Let_def split: sum.splits)
  from c obtain out where
    l: "oled_displays_initialization_loop (enumerate 0 (map set_driver_name ds))
          [''// BEGIN - OLED display initialization''] = Inr out"
    and co: "code = out @ [''// END - OLED display initialization'']"
    by (auto simp add: oled_displays_initialization_def split: sum.splits)
  from initialization_loop_blocks [OF l] obtain blocks where
    b: "length blocks = length ds"
       "out = [''// BEGIN - OLED display initialization''] @ concat blocks"
       "\<forall>i<length ds. oled_display_initialization
              (fst (enumerate 0 (map set_driver_name ds) ! i))
              (snd (enumerate 0 (map set_driver_name ds) ! i)) = Inr (blocks ! i)"
    by auto
  have "\<forall>i<length ds.
          oled_display_initialization i (set_driver_name (ds ! i)) = Inr (blocks ! i)
          \<and> last (blocks ! i) =
              spec_name ''display'' i @ ''.Init(display_config'' @ nat_to_string i @ '');''"
  proof (intro allI impI)
    fix i assume i: "i < length ds"
    with b(3) have "oled_display_initialization i (set_driver_name (ds ! i)) = Inr (blocks ! i)"
      by (simp add: nth_enumerate_eq)
    then show "oled_display_initialization i (set_driver_name (ds ! i)) = Inr (blocks ! i)
          \<and> last (blocks ! i) =
              spec_name ''display'' i @ ''.Init(display_config'' @ nat_to_string i @ '');''"
      using oled_display_initialization_last by blast
  qed
  with b(1,2) tc co
  show "\<exists>blocks. length blocks = length ds
               \<and> t = join ''\<newline>        ''
                     ([''// BEGIN - OLED display initialization''] @ concat blocks
                      @ [''// END - OLED display initialization''])
               \<and> (\<forall>i<length ds.
                     oled_display_initialization i (set_driver_name (ds ! i)) = Inr (blocks ! i)
                     \<and> last (blocks ! i) =
                         spec_name ''display'' i @ ''.Init(display_config'' @ nat_to_string i @ '');'')"
    by (intro exI [of _ blocks]) simp
qed

theorem display_names_witness:
  "[i2c_display, spi_display] \<noteq> []
   \<and> fst (generateOledDisplays (Some [i2c_display, spi_display]) DECLARATION)
       = Inr ''// OLED display declaration\<newline>    OledDisplay<SSD130xI2c128x64Driver> display;\<newline>    OledDisplay<SSD130x4WireSpi128x64Driver> display1;''
   \<and> fst (generateOledDisplays (Some [i2c_display, spi_display]) INITIALIZATION)
       = Inr ''// BEGIN - OLED display initialization\<newline>        // Display 0\<newline>        OledDisplay<SSD130xI2c128x64Driver>::Config display_config0;\<newline>        display_config0.driver_config.transport_config.i2c_address = 60;\<newline>        display_config0.driver_config.transport_config.i2c_config.periph = I2CHandle::Config::Peripheral::I2C_1;\<newline>        display_config0.driver_config.transport_config.i2c_config.speed = I2CHandle::Config::Speed::I2C_1MHZ;\<newline>        display_config0.driver_config.transport_config.i2c_config.pin_config.sda = seed.GetPin(12);\<newline>        display_config0.driver_config.transport_config.i2c_config.pin_config.scl = seed.GetPin(11);\<newline>        display.Init(display_config0);\<newline>        // Display 1\<newline>        OledDisplay<SSD130x4WireSpi128x64Driver>::Config display_config1;\<newline>        display_config1.driver_config.transport_config.pin_config.dc = seed.GetPin(9);\<newline>        display_config1.driver_config.transport_config.pin_config.reset = seed.GetPin(30);\<newline>        display1.Init(display_config1);\<newline>        // END - OLED display initialization''"
proof -
  have ne: "[i2c_display, spi_display] \<noteq> []" by simp
  have decl: "fst (generateOledDisplays (Some [i2c_display, spi_display]) DECLARATION)
       = Inr ''// OLED display declaration\<newline>    OledDisplay<SSD130xI2c128x64Driver> display;\<newline>    OledDisplay<SSD130x4WireSpi128x64Driver> display1;''"
    using display_names [OF ne]
    by (simp add: i2c_display_def spi_display_def set_driver_name_def array_join_def
        spec_name_def nat_to_string.simps digit_of_def)
  have init: "fst (generateOledDisplays (Some [i2c_display, spi_display]) INITIALIZATION)
       = Inr ''// BEGIN - OLED display initialization\<newline>        // Display 0\<newline>        OledDisplay<SSD130xI2c128x64Driver>::Config display_config0;\<newline>        display_config0.driver_config.transport_config.i2c_address = 60;\<newline>        display_config0.driver_config.transport_config.i2c_config.periph = I2CHandle::Config::Peripheral::I2C_1;\<newline>        display_config0.driver_config.transport_config.i2c_config.speed = I2CHandle::Config::Speed::I2C_1MHZ;\<newline>        display_config0.driver_config.transport_config.i2c_config.pin_config.sda = seed.GetPin(12);\<newline>        display_config0.driver_config.transport_config.i2c_config.pin_config.scl = seed.GetPin(11);\<newline>        display.Init(display_config0);\<newline>        // Display 1\<newline>        OledDisplay<SSD130x4WireSpi128x64Driver>::Config display_config1;\<newline>        display_config1.driver_config.transport_config.pin_config.dc = seed.GetPin(9);\<newline>        display_config1.driver_config.transport_config.pin_config.reset = seed.GetPin(30);\<newline>        display1.Init(display_config1);\<newline>        // END - OLED display initialization''"
    by code_simp
  from ne decl init show ?thesis by (intro conjI)
qed

text \<open>
  C4. Running the driver a second time, on the document as the first run left it, gives
  the result of the first run, text or error alike, and leaves the document as the first
  run left it. More generally the result does not depend on the \<open>driver_name\<close> fields
  that the document comes with: they are overwritten before they are read.
\<close>

theorem generate_twice:
  "fst (generateCustomHardwareImpl (snd (generateCustomHardwareImpl doc)))
     = fst (generateCustomHardwareImpl doc)
   \<and> snd (generateCustomHardwareImpl (snd (generateCustomHardwareImpl doc)))
     = snd (generateCustomHardwareImpl doc)
   \<and> fst (generateCustomHardwareImpl
          (doc\<lparr>oled_displays := map_option (map (\<lambda>d. d\<lparr>driver_name := v d\<rparr>)) (oled_displays doc)\<rparr>))
     = fst (generateCustomHardwareImpl doc)"
  by (simp add: generateCustomHardwareImpl_fst generateCustomHardwareImpl_snd
      generateOledDisplays_again generateOledDisplays_driver_name
      hardware_implementation_oled_displays cong: sum.case_cong)

text \<open>The first run does change the document when it has displays.\<close>

theorem generate_twice_witness:
  "snd (generateCustomHardwareImpl (empty_document\<lparr>oled_displays := Some [i2c_display]\<rparr>))
     \<noteq> empty_document\<lparr>oled_displays := Some [i2c_display]\<rparr>
   \<and> fst (generateCustomHardwareImpl
          (snd (generateCustomHardwareImpl (empty_document\<lparr>oled_displays := Some [i2c_display]\<rparr>))))
     = fst (generateCustomHardwareImpl (empty_document\<lparr>oled_displays := Some [i2c_display]\<rparr>))"
proof -
  have "driver_name (hd (or_empty (oled_displays
          (snd (generateCustomHardwareImpl (empty_document\<lparr>oled_displays := Some [i2c_display]\<rparr>))))))
        = JStr ''SSD130xI2c128x64Driver''"
    by (simp add: generateCustomHardwareImpl_snd generateOledDisplays_def Let_def
        set_driver_name_def array_join_def i2c_display_def)
  moreover have "driver_name (hd (or_empty (oled_displays
          (empty_document\<lparr>oled_displays := Some [i2c_display]\<rparr>)))) = JUndefined"
    by (simp add: i2c_display_def)
  ultimately have "snd (generateCustomHardwareImpl (empty_document\<lparr>oled_displays := Some [i2c_display]\<rparr>))
     \<noteq> empty_document\<lparr>oled_displays := Some [i2c_display]\<rparr>"
    by (metis jsval.distinct(7))
  with generate_twice [of "empty_document\<lparr>oled_displays := Some [i2c_display]\<rparr>"]
  show ?thesis by blast
qed

text \<open>
  C10. The generated result does not depend on the \<open>gate_outputs\<close> and \<open>midi_handlers\<close>
  lists: replacing them by any other lists leaves it as it is. The gate output generator
  is called on \<open>gate_inputs\<close>, and neither placeholder generator reads its argument.
\<close>

theorem placeholder_lists_unread:
  "fst (generateCustomHardwareImpl (doc\<lparr>gate_outputs := gos, midi_handlers := mhs\<rparr>))
     = fst (generateCustomHardwareImpl doc)"
  by (simp add: generateCustomHardwareImpl_fst hardware_implementation_def
      generateMidiHandlers_def cong: sum.case_cong)

theorem placeholder_lists_unread_witness:
  "fst (generateCustomHardwareImpl (encoder_and_gate\<lparr>gate_outputs := Some [()], midi_handlers := Some [(), ()]\<rparr>))
     = fst (generateCustomHardwareImpl encoder_and_gate)"
  using placeholder_lists_unread
    [where doc = encoder_and_gate and gos = "Some [()]" and mhs = "Some [(), ()]"] .

text \<open>
  C3. The specification has the initialization routine follow the order of the
  declarations. It does not: the template initializes gate inputs and gate outputs before encoders, while it
  declares encoders first. For a document with one encoder and one gate input the encoder
  initialization is not followed by the gate input initialization.
\<close>

theorem initialization_order_counterexample:
  "\<not> initialization_follows declaration_order encoder_and_gate"
  by code_simp

text \<open>
  C3, amended. Whenever the driver produces a text, the type declaration holds the
  declaration fragments in the order analog (with CV inputs), CV output, encoder, gate
  input, gate output, LED, MIDI handler, display, RGB LED, switch, and the initialization
  routine holds, after the platform bring-up call, the initialization fragments in the
  order analog (with CV inputs), CV output, gate input, gate output, encoder, LED, MIDI
  handler, display, RGB LED, switch.
\<close>

theorem fragment_order:
  assumes "\<not> isl (fst (generateCustomHardwareImpl doc))"
  shows "declaration_follows declaration_order doc \<and> initialization_follows initialization_order doc"
proof -
  from assms obtain a b c where
    a: "fst (generateOledDisplays (oled_displays doc) INCLUDE) = Inr a"
    and b: "fst (generateOledDisplays (oled_displays doc) DECLARATION) = Inr b"
    and c: "fst (generateOledDisplays (oled_displays doc) INITIALIZATION) = Inr c"
    and t: "fst (generateCustomHardwareImpl doc) = Inr (hardware_implementation doc a b c)"
    by (auto simp add: generateCustomHardwareImpl_fst split: sum.splits)
  have gt: "generated_text doc = hardware_implementation doc a b c"
    using t by (simp add: generated_text_def)
  have dcs: "[''    DaisySeed seed;\<newline>'']
               @ map (\<lambda>k. fragment doc k DECLARATION) declaration_order
               @ [''    void Init(bool boost) \<newline>'']
      = [''    DaisySeed seed;\<newline>'',
         generateAnalogControls (analog_controls doc) (cv_inputs doc) DECLARATION,
         generateCvOutputs (cv_outputs doc) DECLARATION,
         generateEncoders (encoders doc) DECLARATION,
         generateGateInputs (gate_inputs doc) DECLARATION,
         generateGateOutputs (gate_inputs doc) DECLARATION,
         generateLeds (leds doc) DECLARATION,
         generateMidiHandlers (midi_handlers doc) DECLARATION,
         b,
         generateRgbLeds (rgb_leds doc) DECLARATION,
         generateSwitches (switches doc) DECLARATION,
         ''    void Init(bool boost) \<newline>'']"
    by (simp add: declaration_order_def b)
  have ins: "[''        seed.Init(boost);\<newline>'']
               @ map (\<lambda>k. fragment doc k INITIALIZATION) initialization_order
               @ [''    void ProcessAnalogControls()\<newline>'']
      = [''        seed.Init(boost);\<newline>'',
         generateAnalogControls (analog_controls doc) (cv_inputs doc) INITIALIZATION,
         generateCvOutputs (cv_outputs doc) INITIALIZATION,
         generateGateInputs (gate_inputs doc) INITIALIZATION,
         generateGateOutputs (gate_inputs doc) INITIALIZATION,
         generateEncoders (encoders doc) INITIALIZATION,
         generateLeds (leds doc) INITIALIZATION,
         generateMidiHandlers (midi_handlers doc) INITIALIZATION,
         c,
         generateRgbLeds (rgb_leds doc) INITIALIZATION,
         generateSwitches (switches doc) INITIALIZATION,
         ''    void ProcessAnalogControls()\<newline>'']"
    by (simp add: initialization_order_def c)
  have "declaration_follows declaration_order doc"
    unfolding declaration_follows_def gt hardware_implementation_def dcs
    by (rule in_order_Nil | rule in_order_here | rule in_order_skip)+
  moreover have "initialization_follows initialization_order doc"
    unfolding initialization_follows_def gt hardware_implementation_def ins
    by (rule in_order_Nil | rule in_order_here | rule in_order_skip)+
  ultimately show ?thesis ..
qed

theorem fragment_order_witness:
  "\<not> isl (fst (generateCustomHardwareImpl encoder_and_gate))
   \<and> declaration_follows declaration_order encoder_and_gate
   \<and> initialization_follows initialization_order encoder_and_gate"
proof -
  have ok: "\<not> isl (fst (generateCustomHardwareImpl encoder_and_gate))"
    by (simp add: generateCustomHardwareImpl_fst encoder_and_gate_def generateOledDisplays_def)
  from ok fragment_order [OF ok] show ?thesis by (intro conjI) simp_all
qed




end
